theory Spec2Isabelle
  imports Complex_Main
begin

section \<open>The expense tracker: data model\<close>

text \<open>
  The program (\<^verbatim>\<open>src/app.py\<close>) keeps its expenses in a pandas DataFrame and in the
  file \<^verbatim>\<open>expenses.csv\<close>. A DataFrame is modelled by its column names and its rows of
  dynamically typed cells; the file by its lines of fields (the header line first), the
  comma and quote level of the text being left to the library. Amounts are floats in the
  program and exact reals here: rounding is outside the model.
\<close>

record date =
  d_year :: int
  d_month :: nat
  d_day :: nat

datatype cell =
    NaN                   \<comment> \<open>a missing value: NaN, NaT\<close>
  | Num real              \<comment> \<open>a number\<close>
  | Str string            \<comment> \<open>a Python str\<close>
  | Day date              \<comment> \<open>a datetime.date\<close>

record dataframe =
  columns :: "string list"
  rows :: "cell list list"

datatype error =
    FileNotFoundError
  | EmptyDataError
  | ParserError
  | KeyError string
  | DateParseError string
  | OutOfBoundsDatetime real
  | TypeError

type_synonym csv = "string list list"

text \<open>The only file the program touches is \<^verbatim>\<open>DATA_PATH\<close>: \<open>None\<close> when it does not exist.\<close>

type_synonym store = "csv option"

text \<open>
  The scalar conversions of pandas and Python are not part of the repository. They are
  parameters of the model: how a float and a date are printed, and which strings the
  library reads as a number or as a date (\<open>num_date\<close> is \<^verbatim>\<open>to_datetime\<close> on a number).
\<close>

record codec =
  num_str :: "real \<Rightarrow> string"
  str_num :: "string \<Rightarrow> real option"
  date_str :: "date \<Rightarrow> string"
  str_date :: "string \<Rightarrow> date option"
  num_date :: "real \<Rightarrow> date option"

definition bindE :: "'e + 'a \<Rightarrow> ('a \<Rightarrow> 'e + 'b) \<Rightarrow> 'e + 'b" where
  "bindE m f = (case m of Inl e \<Rightarrow> Inl e | Inr x \<Rightarrow> f x)"

fun collect :: "('e + 'a) list \<Rightarrow> 'e + 'a list" where
  "collect [] = Inr []"
| "collect (x # xs) =
     (case x of Inl e \<Rightarrow> Inl e
      | Inr v \<Rightarrow> (case collect xs of Inl e \<Rightarrow> Inl e | Inr vs \<Rightarrow> Inr (v # vs)))"

section \<open>DataFrame operations used by the program\<close>

definition df_empty :: "dataframe \<Rightarrow> bool" where
  \<comment> \<open>\<^verbatim>\<open>df.empty\<close>: some axis has length 0\<close>
  "df_empty df = (rows df = [] \<or> columns df = [])"

fun col_index :: "string list \<Rightarrow> string \<Rightarrow> nat option" where
  "col_index [] n = None"
| "col_index (c # cs) n = (if c = n then Some 0 else map_option Suc (col_index cs n))"

definition cell_at :: "cell list \<Rightarrow> nat \<Rightarrow> cell" where
  "cell_at r i = (if i < length r then r ! i else NaN)"

definition get_col :: "dataframe \<Rightarrow> string \<Rightarrow> error + cell list" where
  \<comment> \<open>\<^verbatim>\<open>df[name]\<close>\<close>
  "get_col df n =
     (case col_index (columns df) n of
        None \<Rightarrow> Inl (KeyError n)
      | Some i \<Rightarrow> Inr (map (\<lambda>r. cell_at r i) (rows df)))"

definition set_col :: "string \<Rightarrow> cell list \<Rightarrow> dataframe \<Rightarrow> dataframe" where
  \<comment> \<open>\<^verbatim>\<open>df[name] = values\<close>: replaces the column, or appends a new one\<close>
  "set_col n vs df =
     (case col_index (columns df) n of
        Some i \<Rightarrow> df\<lparr>rows := map2 (\<lambda>r v. r[i := v]) (rows df) vs\<rparr>
      | None \<Rightarrow> df\<lparr>columns := columns df @ [n],
                   rows := map2 (\<lambda>r v. r @ [v]) (rows df) vs\<rparr>)"

definition mask_rows :: "bool list \<Rightarrow> dataframe \<Rightarrow> dataframe" where
  \<comment> \<open>\<^verbatim>\<open>df[mask]\<close>: the rows whose mask entry is True\<close>
  "mask_rows bs df = df\<lparr>rows := map fst (filter snd (zip (rows df) bs))\<rparr>"

definition drop_cols :: "string list \<Rightarrow> dataframe \<Rightarrow> dataframe" where
  \<comment> \<open>\<^verbatim>\<open>df.drop(columns=names, errors="ignore")\<close>\<close>
  "drop_cols ns df =
     (let keep = map (\<lambda>c. c \<notin> set ns) (columns df)
      in \<lparr>columns = map fst (filter snd (zip (columns df) keep)),
          rows = map (\<lambda>r. map fst (filter snd (zip r keep))) (rows df)\<rparr>)"

definition concat_row :: "dataframe \<Rightarrow> (string \<times> cell) list \<Rightarrow> dataframe" where
  \<comment> \<open>\<^verbatim>\<open>pd.concat([df, pd.DataFrame([new_row])], ignore_index=True)\<close>: the columns
      are the union in order of appearance, a cell without a value is missing\<close>
  "concat_row df new_row =
     (let new_cols = filter (\<lambda>k. k \<notin> set (columns df)) (map fst new_row);
          cols = columns df @ new_cols
      in \<lparr>columns = cols,
          rows = map (\<lambda>r. r @ replicate (length new_cols) NaN) (rows df)
                 @ [map (\<lambda>c. case map_of new_row c of Some v \<Rightarrow> v | None \<Rightarrow> NaN) cols]\<rparr>)"

subsection \<open>Column conversions\<close>

definition to_datetime1 :: "codec \<Rightarrow> cell \<Rightarrow> error + date option" where
  \<comment> \<open>\<^verbatim>\<open>pd.to_datetime\<close> on one value, \<open>None\<close> for NaT; the default
      \<^verbatim>\<open>errors="raise"\<close>\<close>
  "to_datetime1 K c =
     (case c of
        NaN \<Rightarrow> Inr None
      | Day d \<Rightarrow> Inr (Some d)
      | Str s \<Rightarrow> (case str_date K s of None \<Rightarrow> Inl (DateParseError s) | Some d \<Rightarrow> Inr (Some d))
      | Num x \<Rightarrow> (case num_date K x of None \<Rightarrow> Inl (OutOfBoundsDatetime x)
                  | Some d \<Rightarrow> Inr (Some d)))"

definition to_datetime :: "codec \<Rightarrow> cell list \<Rightarrow> error + date option list" where
  "to_datetime K cs = collect (map (to_datetime1 K) cs)"

definition dt_date :: "date option \<Rightarrow> cell" where
  "dt_date t = (case t of None \<Rightarrow> NaN | Some d \<Rightarrow> Day d)"

definition dt_year :: "date option \<Rightarrow> cell" where
  "dt_year t = (case t of None \<Rightarrow> NaN | Some d \<Rightarrow> Num (of_int (d_year d)))"

definition dt_month :: "date option \<Rightarrow> cell" where
  "dt_month t = (case t of None \<Rightarrow> NaN | Some d \<Rightarrow> Num (of_nat (d_month d)))"

definition astype_str :: "codec \<Rightarrow> cell \<Rightarrow> cell" where
  \<comment> \<open>\<^verbatim>\<open>.astype(str)\<close>: \<^verbatim>\<open>str\<close> of the value, a missing value becomes the text nan\<close>
  "astype_str K c =
     Str (case c of NaN \<Rightarrow> ''nan'' | Num x \<Rightarrow> num_str K x | Str s \<Rightarrow> s | Day d \<Rightarrow> date_str K d)"

definition to_numeric_coerce :: "codec \<Rightarrow> cell \<Rightarrow> cell" where
  \<comment> \<open>\<^verbatim>\<open>pd.to_numeric(..., errors="coerce")\<close>\<close>
  "to_numeric_coerce K c =
     (case c of
        NaN \<Rightarrow> NaN
      | Num x \<Rightarrow> Num x
      | Str s \<Rightarrow> (case str_num K s of None \<Rightarrow> NaN | Some x \<Rightarrow> Num x)
      | Day d \<Rightarrow> NaN)"

definition fillna :: "real \<Rightarrow> cell \<Rightarrow> cell" where
  "fillna v c = (case c of NaN \<Rightarrow> Num v | _ \<Rightarrow> c)"

subsection \<open>Reading and writing the file\<close>

text \<open>
  \<^verbatim>\<open>read_csv\<close> and \<^verbatim>\<open>to_csv\<close> are library functions; the model keeps what the
  program relies on: the header line, the default missing-value markers, the choice per
  column between numbers and text, and the empty field for a missing value. It leaves
  out the distinction between integer and float columns, boolean columns, the renaming
  of duplicate column names and the implicit index of over-long lines.
\<close>

definition na_values :: "string list" where
  \<comment> \<open>the fields \<^verbatim>\<open>read_csv\<close> reads as missing by default\<close>
  "na_values = ['''', ''#N/A'', ''#N/A N/A'', ''#NA'', ''-1.#IND'', ''-1.#QNAN'', ''-NaN'',
     ''-nan'', ''1.#IND'', ''1.#QNAN'', ''<NA>'', ''N/A'', ''NA'', ''NULL'', ''NaN'', ''None'',
     ''n/a'', ''nan'', ''null'']"

definition is_na :: "string \<Rightarrow> bool" where
  "is_na s = (s \<in> set na_values)"

definition field_of :: "codec \<Rightarrow> cell \<Rightarrow> string" where
  \<comment> \<open>what \<^verbatim>\<open>to_csv\<close> writes for a cell; a missing value is the empty field\<close>
  "field_of K c =
     (case c of NaN \<Rightarrow> '''' | Num x \<Rightarrow> num_str K x | Str s \<Rightarrow> s | Day d \<Rightarrow> date_str K d)"

definition to_csv :: "codec \<Rightarrow> dataframe \<Rightarrow> csv" where
  \<comment> \<open>\<^verbatim>\<open>df.to_csv(path, index=False)\<close>\<close>
  "to_csv K df = columns df # map (map (field_of K)) (rows df)"

definition pad :: "nat \<Rightarrow> string list \<Rightarrow> string list" where
  "pad n l = l @ replicate (n - length l) ''''"

definition read_cell :: "codec \<Rightarrow> bool \<Rightarrow> string \<Rightarrow> cell" where
  "read_cell K numeric s =
     (if is_na s then NaN
      else if numeric then (case str_num K s of Some x \<Rightarrow> Num x | None \<Rightarrow> Str s)
      else Str s)"

definition read_csv :: "codec \<Rightarrow> csv \<Rightarrow> error + dataframe" where
  \<comment> \<open>\<^verbatim>\<open>pd.read_csv(path)\<close>: the first line names the columns; a short line is
      filled with missing values, a long one is an error; a column whose fields are all
      missing or numbers is numeric, any other keeps its text\<close>
  "read_csv K f =
     (case f of
        [] \<Rightarrow> Inl EmptyDataError
      | h # ls \<Rightarrow>
          if list_ex (\<lambda>l. length h < length l) ls then Inl ParserError
          else
            let padded = map (pad (length h)) ls;
                numeric = map (\<lambda>j. list_all (\<lambda>l. is_na (l ! j) \<or> str_num K (l ! j) \<noteq> None) padded)
                              [0..<length h]
            in Inr \<lparr>columns = h, rows = map (\<lambda>l. map2 (read_cell K) numeric l) padded\<rparr>)"

section \<open>The program\<close>

definition DATA_COLUMNS :: "string list" where
  "DATA_COLUMNS = [''date'', ''category'', ''amount'', ''notes'']"

definition init_data :: "codec \<Rightarrow> store \<Rightarrow> store" where
  "init_data K fs =
     (case fs of
        None \<Rightarrow> Some (to_csv K \<lparr>columns = DATA_COLUMNS, rows = []\<rparr>)
      | Some f \<Rightarrow> Some f)"

definition coerce_col :: "string \<Rightarrow> (cell list \<Rightarrow> error + cell list) \<Rightarrow> dataframe \<Rightarrow> error + dataframe" where
  \<comment> \<open>\<^verbatim>\<open>df[name] = convert(df[name])\<close>\<close>
  "coerce_col n conv df =
     bindE (get_col df n) (\<lambda>cs. bindE (conv cs) (\<lambda>vs. Inr (set_col n vs df)))"

definition load_data :: "codec \<Rightarrow> store \<Rightarrow> store \<times> (error + dataframe)" where
  "load_data K fs =
     (let fs1 = init_data K fs
      in (fs1,
          case fs1 of
            None \<Rightarrow> Inl FileNotFoundError
          | Some f \<Rightarrow>
              bindE (read_csv K f) (\<lambda>df.
                if \<not> df_empty df then
                  bindE (coerce_col ''date''
                           (\<lambda>cs. bindE (to_datetime K cs) (\<lambda>ts. Inr (map dt_date ts))) df) (\<lambda>df.
                  bindE (coerce_col ''category'' (\<lambda>cs. Inr (map (astype_str K) cs)) df) (\<lambda>df.
                  bindE (coerce_col ''amount''
                           (\<lambda>cs. Inr (map (fillna 0 \<circ> to_numeric_coerce K) cs)) df) (\<lambda>df.
                  coerce_col ''notes'' (\<lambda>cs. Inr (map (astype_str K) cs)) df)))
                else Inr df)))"

definition save_data :: "codec \<Rightarrow> store \<Rightarrow> dataframe \<Rightarrow> store" where
  "save_data K fs df = Some (to_csv K df)"

subsection \<open>Month names and row filtering\<close>

definition calendar_month_name :: "string list" where
  \<comment> \<open>\<^verbatim>\<open>calendar.month_name\<close> (index 0 is empty), in the default C locale\<close>
  "calendar_month_name = ['''', ''January'', ''February'', ''March'', ''April'', ''May'', ''June'',
     ''July'', ''August'', ''September'', ''October'', ''November'', ''December'']"

definition month_name_to_num :: "string \<Rightarrow> nat" where
  "month_name_to_num name =
     (if name = ''All year'' then 0
      else
        let months = fold (\<lambda>i m. m(calendar_month_name ! i \<mapsto> i)) [1..<13] Map.empty
        in (case months name of Some i \<Rightarrow> i | None \<Rightarrow> 0))"

definition isin :: "string list \<Rightarrow> cell \<Rightarrow> bool" where
  \<comment> \<open>\<^verbatim>\<open>Series.isin(values)\<close> for a list of strings\<close>
  "isin vs c = (case c of Str s \<Rightarrow> s \<in> set vs | _ \<Rightarrow> False)"

definition filter_df :: "codec \<Rightarrow> dataframe \<Rightarrow> int \<Rightarrow> string \<Rightarrow> string list \<Rightarrow> error + dataframe" where
  "filter_df K df year month_opt categories =
     (if df_empty df then Inr df
      else
        bindE (get_col df ''date'') (\<lambda>dc. bindE (to_datetime K dc) (\<lambda>ts.
        let df2 = set_col ''year'' (map dt_year ts) df in
        bindE (get_col df2 ''date'') (\<lambda>dc. bindE (to_datetime K dc) (\<lambda>ts.
        let df2 = set_col ''month'' (map dt_month ts) df2 in
        bindE (get_col df2 ''year'') (\<lambda>yc.
        let df2 = mask_rows (map (\<lambda>c. c = Num (of_int year)) yc) df2;
            m = month_name_to_num month_opt in
        bindE (if m \<noteq> 0
               then bindE (get_col df2 ''month'')
                      (\<lambda>mc. Inr (mask_rows (map (\<lambda>c. c = Num (of_nat m)) mc) df2))
               else Inr df2) (\<lambda>df2.
        bindE (if categories \<noteq> []
               then bindE (get_col df2 ''category'')
                      (\<lambda>cc. Inr (mask_rows (map (isin categories) cc) df2))
               else Inr df2) (\<lambda>df2.
        Inr (drop_cols [''year'', ''month''] df2)))))))))"

subsection \<open>Aggregates\<close>

definition skipna_vals :: "cell list \<Rightarrow> error + real list" where
  \<comment> \<open>the numbers a sum adds up: a missing value is skipped, that is, counts as 0\<close>
  "skipna_vals cs =
     collect (map (\<lambda>c. case c of NaN \<Rightarrow> Inr 0 | Num x \<Rightarrow> Inr x | _ \<Rightarrow> Inl TypeError) cs)"

fun add_group :: "(cell \<times> real) list \<Rightarrow> cell \<Rightarrow> real \<Rightarrow> (cell \<times> real) list" where
  "add_group [] k v = [(k, v)]"
| "add_group ((k', s) # gs) k v =
     (if k' = k then (k', s + v) # gs else (k', s) # add_group gs k v)"

definition groupby_sum :: "cell list \<Rightarrow> real list \<Rightarrow> (cell \<times> real) list" where
  \<comment> \<open>\<^verbatim>\<open>df.groupby(key)[value].sum()\<close>: rows with a missing key are dropped. pandas
      orders the groups by key; here they stay in order of first appearance, which the
      mean and the maximum do not see.\<close>
  "groupby_sum ks vs =
     fold (\<lambda>(k, v) gs. if k = NaN then gs else add_group gs k v) (zip ks vs) []"

definition series_mean :: "real list \<Rightarrow> real" where
  "series_mean xs = sum_list xs / real (length xs)"

fun series_max :: "real list \<Rightarrow> real" where
  "series_max [] = 0"
| "series_max (x # xs) = fold max xs x"

definition compute_kpis :: "dataframe \<Rightarrow> error + real \<times> real \<times> real \<times> real" where
  "compute_kpis df =
     (if df_empty df then Inr (0, 0, 0, 0)
      else
        bindE (get_col df ''amount'') (\<lambda>ac. bindE (skipna_vals ac) (\<lambda>amts.
        let total = sum_list amts in
        bindE (get_col df ''date'') (\<lambda>ks.
        let by_day = map snd (groupby_sum ks amts);
            avg_day = (if by_day \<noteq> [] then series_mean by_day else 0);
            max_day = (if by_day \<noteq> [] then series_max by_day else 0)
        in Inr (total, avg_day, max_day, real (length (rows df)))))))"

subsection \<open>The add-expense form and the page\<close>

definition isspace :: "char \<Rightarrow> bool" where
  \<comment> \<open>\<^verbatim>\<open>str.isspace\<close> on the code points below 256\<close>
  "isspace c = ((of_char c :: nat) \<in> {9, 10, 11, 12, 13, 28, 29, 30, 31, 32, 133, 160})"

definition strip :: "string \<Rightarrow> string" where
  "strip s = rev (dropWhile isspace (rev (dropWhile isspace s)))"

definition add_expense :: "codec \<Rightarrow> store \<Rightarrow> date \<Rightarrow> string \<Rightarrow> real \<Rightarrow> string \<Rightarrow> store \<times> (error + unit)" where
  \<comment> \<open>the body of \<^verbatim>\<open>if submitted:\<close> in the form; an exception leaves the file as
      \<^verbatim>\<open>load_data\<close> left it\<close>
  "add_expense K fs d cat amt note =
     (case load_data K fs of
        (fs1, Inl e) \<Rightarrow> (fs1, Inl e)
      | (fs1, Inr df) \<Rightarrow>
          let new_row = [(''date'', Day d),
                         (''category'', Str (if strip cat \<noteq> [] then cat else ''Uncategorized'')),
                         (''amount'', Num amt),
                         (''notes'', Str note)];
              df = concat_row df new_row
          in (save_data K fs1 df, Inr ()))"

definition pipeline ::
  "codec \<Rightarrow> store \<Rightarrow> int \<Rightarrow> string \<Rightarrow> string list
     \<Rightarrow> store \<times> (error + dataframe \<times> dataframe \<times> (real \<times> real \<times> real \<times> real))" where
  \<comment> \<open>one run of the page: \<^verbatim>\<open>load_data\<close>, \<^verbatim>\<open>filter_df\<close>, \<^verbatim>\<open>compute_kpis\<close>\<close>
  "pipeline K fs year month_opt categories =
     (case load_data K fs of
        (fs1, r) \<Rightarrow>
          (fs1,
           bindE r (\<lambda>df_all.
           bindE (filter_df K df_all year month_opt categories) (\<lambda>df_filtered.
           bindE (compute_kpis df_filtered) (\<lambda>kpis.
           Inr (df_all, df_filtered, kpis))))))"

section \<open>What the specification says, in the terms of the model\<close>

text \<open>
  A table as \<^verbatim>\<open>load_data\<close> returns it from the four-column file: the date (cell 0
  of a row) is a date or missing, the category (cell 1) and the note (cell 3) are strings,
  the amount (cell 2) is a number.
\<close>

definition is_num :: "cell \<Rightarrow> bool" where
  "is_num c = (case c of Num _ \<Rightarrow> True | _ \<Rightarrow> False)"

definition is_str :: "cell \<Rightarrow> bool" where
  "is_str c = (case c of Str _ \<Rightarrow> True | _ \<Rightarrow> False)"

definition is_day :: "cell \<Rightarrow> bool" where
  "is_day c = (case c of Day _ \<Rightarrow> True | _ \<Rightarrow> False)"

fun typed_row :: "cell list \<Rightarrow> bool" where
  "typed_row [d, c, a, n] = ((d = NaN \<or> is_day d) \<and> is_str c \<and> is_num a \<and> is_str n)"
| "typed_row _ = False"

definition typed_table :: "dataframe \<Rightarrow> bool" where
  "typed_table df = (columns df = DATA_COLUMNS \<and> list_all typed_row (rows df))"

text \<open>
  The rows a selection keeps: the date is in the selected year; if the month option is
  the name of month \<open>k\<close>, the date is in month \<open>k\<close>; if categories are selected, the
  category is one of them.
\<close>

definition selected :: "int \<Rightarrow> string \<Rightarrow> string list \<Rightarrow> cell list \<Rightarrow> bool" where
  "selected year month_opt categories r =
     ((case cell_at r 0 of
         Day d \<Rightarrow> d_year d = year
                  \<and> (\<forall>k \<in> {1..12}. calendar_month_name ! k = month_opt \<longrightarrow> d_month d = k)
       | _ \<Rightarrow> False)
      \<and> (categories \<noteq> [] \<longrightarrow> (case cell_at r 1 of Str s \<Rightarrow> s \<in> set categories | _ \<Rightarrow> False)))"

text \<open>
  The per-day sums of a table: its dates (a missing date is not one), and the sum of the
  amounts of the rows of a date. A maximum of a set is a member that bounds it.
\<close>

definition amount_of :: "cell list \<Rightarrow> real" where
  "amount_of r = (case cell_at r 2 of Num x \<Rightarrow> x | _ \<Rightarrow> 0)"




text \<open>The file format: the header names the four columns and every line has four fields.\<close>

fun four_columns :: "csv \<Rightarrow> bool" where
  "four_columns [] = False"
| "four_columns (h # ls) = (h = DATA_COLUMNS \<and> list_all (\<lambda>l. length l = 4) ls)"



section \<open>A concrete codec\<close>

text \<open>
  For evaluation on concrete inputs: numbers are written with one decimal digit (as
  Python writes 12.5 and 0.0) and read as digits with an optional fraction; dates are
  written and read as \<^verbatim>\<open>YYYY-MM-DD\<close>. It is used on inputs where it agrees with the library.
\<close>

definition digit_char :: "nat \<Rightarrow> char" where
  "digit_char n = char_of (48 + n mod 10)"

fun show_nat :: "nat \<Rightarrow> string" where
  "show_nat n = (if n < 10 then [digit_char n] else show_nat (n div 10) @ [digit_char n])"

definition two_digits :: "nat \<Rightarrow> string" where
  "two_digits n = [digit_char (n div 10), digit_char n]"

definition four_digits :: "nat \<Rightarrow> string" where
  "four_digits n = two_digits (n div 100) @ two_digits n"

fun digits_val :: "string \<Rightarrow> nat \<Rightarrow> nat option" where
  "digits_val [] acc = Some acc"
| "digits_val (c # cs) acc =
     (let n = (of_char c :: nat)
      in if 48 \<le> n \<and> n \<le> 57 then digits_val cs (10 * acc + (n - 48)) else None)"

definition parse_nat :: "string \<Rightarrow> nat option" where
  "parse_nat s = (if s = [] then None else digits_val s 0)"

definition demo_num_str :: "real \<Rightarrow> string" where
  "demo_num_str x =
     show_nat (nat \<lfloor>x\<rfloor>) @ ''.'' @ [digit_char (nat \<lfloor>(x - of_int \<lfloor>x\<rfloor>) * 10\<rfloor>)]"

definition demo_str_num :: "string \<Rightarrow> real option" where
  "demo_str_num s =
     (case dropWhile (\<lambda>c. c \<noteq> CHR ''.'') s of
        [] \<Rightarrow> map_option real (parse_nat s)
      | _ # fr \<Rightarrow>
          (case (parse_nat (takeWhile (\<lambda>c. c \<noteq> CHR ''.'') s), parse_nat fr) of
             (Some i, Some f) \<Rightarrow> Some (real i + real f / 10 ^ length fr)
           | _ \<Rightarrow> None))"

definition demo_date_str :: "date \<Rightarrow> string" where
  "demo_date_str d =
     four_digits (nat (d_year d)) @ ''-'' @ two_digits (d_month d) @ ''-''
       @ two_digits (d_day d)"

definition demo_str_date :: "string \<Rightarrow> date option" where
  "demo_str_date s =
     (if length s = 10 \<and> s ! 4 = CHR ''-'' \<and> s ! 7 = CHR ''-'' then
        (case (parse_nat (take 4 s), parse_nat (take 2 (drop 5 s)), parse_nat (drop 8 s)) of
           (Some y, Some m, Some d) \<Rightarrow>
             if 1 \<le> m \<and> m \<le> 12 \<and> 1 \<le> d \<and> d \<le> 31
             then Some \<lparr>d_year = int y, d_month = m, d_day = d\<rparr> else None
         | _ \<Rightarrow> None)
      else None)"

definition demo_num_date :: "real \<Rightarrow> date option" where
  \<comment> \<open>a number is a count of nanoseconds since 1970-01-01\<close>
  "demo_num_date x =
     (if 0 \<le> x \<and> x < 86400000000000 then Some \<lparr>d_year = 1970, d_month = 1, d_day = 1\<rparr>
      else None)"

definition demo :: codec where
  "demo = \<lparr>num_str = demo_num_str, str_num = demo_str_num, date_str = demo_date_str,
           str_date = demo_str_date, num_date = demo_num_date\<rparr>"

section \<open>Definitions used in the statements and proofs\<close>

text \<open>The date of a cell, when it has one.\<close>

definition day_opt :: "cell \<Rightarrow> date option" where
  "day_opt c = (case c of Day d \<Rightarrow> Some d | _ \<Rightarrow> None)"

text \<open>The two helper cells \<^verbatim>\<open>filter_df\<close> adds to a row, and the table with them.\<close>

definition year_cell :: "cell list \<Rightarrow> cell" where
  "year_cell r = dt_year (day_opt (cell_at r 0))"

definition month_cell :: "cell list \<Rightarrow> cell" where
  "month_cell r = dt_month (day_opt (cell_at r 0))"

definition with_helpers :: "cell list list \<Rightarrow> dataframe" where
  "with_helpers R = \<lparr>columns = DATA_COLUMNS @ [''year'', ''month''],
                      rows = map (\<lambda>r. r @ [year_cell r, month_cell r]) R\<rparr>"

text \<open>What \<^verbatim>\<open>load_data\<close> makes of a date cell and of a row of four cells, and the rows
  \<^verbatim>\<open>read_csv\<close> builds from the lines of a file.\<close>

definition load_date :: "codec \<Rightarrow> cell \<Rightarrow> cell" where
  "load_date K c = (case to_datetime1 K c of Inr t \<Rightarrow> dt_date t | Inl _ \<Rightarrow> NaN)"

definition coerce_row :: "codec \<Rightarrow> cell list \<Rightarrow> cell list" where
  "coerce_row K r =
     [load_date K (cell_at r 0), astype_str K (cell_at r 1),
      fillna 0 (to_numeric_coerce K (cell_at r 2)), astype_str K (cell_at r 3)]"

definition raw_rows :: "codec \<Rightarrow> nat \<Rightarrow> string list list \<Rightarrow> cell list list" where
  "raw_rows K n ls =
     (let padded = map (pad n) ls;
          numeric = map (\<lambda>j. list_all (\<lambda>l. is_na (l ! j) \<or> str_num K (l ! j) \<noteq> None) padded)
                        [0..<n]
      in map (\<lambda>l. map2 (read_cell K) numeric l) padded)"

text \<open>A file and the table it loads to, for the evaluation of the theorems at a concrete input.\<close>

definition wlines :: "string list list" where
  "wlines =
    [[''2024-01-15'', ''Food'', ''12.5'', ''lunch''],
     [''2024-01-20'', ''Bus'', ''3'', ''''],
     [''2024-02-01'', ''Food'', ''abc'', ''dinner''],
     [''2023-01-15'', ''Food'', ''8'', ''old''],
     ['''', ''Food'', ''4'', ''undated'']]"

definition wfile :: csv where
  "wfile = DATA_COLUMNS # wlines"

definition wtable :: dataframe where
  "wtable = \<lparr>columns = DATA_COLUMNS, rows =
     [[Day \<lparr>d_year = 2024, d_month = 1, d_day = 15\<rparr>, Str ''Food'', Num 12.5, Str ''lunch''],
      [Day \<lparr>d_year = 2024, d_month = 1, d_day = 20\<rparr>, Str ''Bus'', Num 3, Str ''nan''],
      [Day \<lparr>d_year = 2024, d_month = 2, d_day = 1\<rparr>, Str ''Food'', Num 0, Str ''dinner''],
      [Day \<lparr>d_year = 2023, d_month = 1, d_day = 15\<rparr>, Str ''Food'', Num 8, Str ''old''],
      [NaN, Str ''Food'', Num 4, Str ''undated'']]\<rparr>"


definition numeric_col :: "codec \<Rightarrow> nat \<Rightarrow> string list list \<Rightarrow> nat \<Rightarrow> bool" where
  "numeric_col K n ls j =
     list_all (\<lambda>l. is_na (l ! j) \<or> str_num K (l ! j) \<noteq> None) (map (pad n) ls)"

text \<open>A table whose only row has an empty note.\<close>

definition rt_table :: dataframe where
  "rt_table = \<lparr>columns = DATA_COLUMNS, rows =
     [[Day \<lparr>d_year = 2024, d_month = 3, d_day = 5\<rparr>, Str ''Food'', Num 12.5, Str '''']]\<rparr>"



text \<open>The per-day sums \<^verbatim>\<open>compute_kpis\<close> builds for a table of the four columns.\<close>

definition by_day :: "dataframe \<Rightarrow> (cell \<times> real) list" where
  "by_day df = groupby_sum (map (\<lambda>r. cell_at r 0) (rows df)) (map amount_of (rows df))"





section \<open>Basic facts about the model\<close>

lemma bindE_simps [simp]:
  "bindE (Inl e) f = Inl e"
  "bindE (Inr x) f = f x"
  by (simp_all add: bindE_def)

lemma init_data_idem: "init_data K (init_data K fs) = init_data K fs"
  by (cases fs) (simp_all add: init_data_def)

lemma load_data_store: "fst (load_data K fs) = init_data K fs"
  by (simp add: load_data_def Let_def)

lemma load_data_rerun: "load_data K (init_data K fs) = load_data K fs"
  by (simp add: load_data_def init_data_idem)

text \<open>
  C7: the page is stateless and deterministic. A run is a function of the file and the
  selections alone, and the only state it leaves behind is the file: running the page
  again on the file the first run left, with the same selections, gives the same output
  and leaves the same file.
\<close>

theorem pipeline_rerun:
  "pipeline K (fst (pipeline K fs year month_opt categories)) year month_opt categories
     = pipeline K fs year month_opt categories"
proof -
  have "fst (pipeline K fs year month_opt categories) = init_data K fs"
    by (simp add: pipeline_def case_prod_beta load_data_store)
  then show ?thesis
    by (simp add: pipeline_def load_data_rerun)
qed

text \<open>
  C9: on an empty table \<^verbatim>\<open>filter_df\<close> returns its argument unchanged, whatever
  the selection, and \<^verbatim>\<open>compute_kpis\<close> returns four zeros.
\<close>

theorem empty_table_neutral:
  "df_empty df \<Longrightarrow>
     filter_df K df year month_opt categories = Inr df \<and> compute_kpis df = Inr (0, 0, 0, 0)"
  by (simp add: filter_df_def compute_kpis_def)

theorem empty_table_neutral_witness:
  "df_empty \<lparr>columns = DATA_COLUMNS, rows = []\<rparr>
   \<and> filter_df demo \<lparr>columns = DATA_COLUMNS, rows = []\<rparr> 2024 ''March'' [''Food'']
       = Inr \<lparr>columns = DATA_COLUMNS, rows = []\<rparr>
   \<and> compute_kpis \<lparr>columns = DATA_COLUMNS, rows = []\<rparr> = Inr (0, 0, 0, 0)"
proof -
  have e: "df_empty \<lparr>columns = DATA_COLUMNS, rows = []\<rparr>"
    by (simp add: df_empty_def)
  show ?thesis
    using e empty_table_neutral [OF e, of demo 2024 "''March''" "[''Food'']"] by simp
qed

lemma load_data_missing:
  "load_data K None = (Some [DATA_COLUMNS], Inr \<lparr>columns = DATA_COLUMNS, rows = []\<rparr>)"
  by (simp add: load_data_def init_data_def to_csv_def read_csv_def df_empty_def)

subsection \<open>Collecting results, masks and columns\<close>

lemma collect_Inrs: "collect (map Inr ys) = Inr ys"
  by (induction ys) simp_all

lemma collect_InrD: "collect xs = Inr ys \<Longrightarrow> xs = map Inr ys"
proof (induction xs arbitrary: ys)
  case Nil
  then show ?case by simp
next
  case (Cons x xs)
  from Cons.prems obtain v vs where "x = Inr v" "collect xs = Inr vs" "ys = v # vs"
    by (auto split: sum.splits)
  with Cons.IH [of vs] show ?case by simp
qed

lemma collect_Inr_iff: "collect xs = Inr ys \<longleftrightarrow> xs = map Inr ys"
  using collect_InrD collect_Inrs by blast

lemma collect_map_Inr: "collect (map (\<lambda>x. Inr (f x)) xs) = Inr (map f xs)"
  by (simp add: collect_Inr_iff)


lemma mask_filter: "map fst (filter snd (zip xs (map p xs))) = filter p xs"
  by (induction xs) auto

lemma mask_rows_filter: "mask_rows (map p (rows df)) df = df\<lparr>rows := filter p (rows df)\<rparr>"
  by (simp add: mask_rows_def mask_filter)

lemma map2_same: "map2 f xs (map g xs) = map (\<lambda>x. f x (g x)) xs"
  by (induction xs) auto

lemma set_col_new:
  "col_index (columns df) n = None \<Longrightarrow>
     set_col n (map g (rows df)) df
       = \<lparr>columns = columns df @ [n], rows = map (\<lambda>r. r @ [g r]) (rows df)\<rparr>"
  by (simp add: set_col_def map2_same)

lemma set_col_old:
  "col_index (columns df) n = Some i \<Longrightarrow>
     set_col n (map g (rows df)) df
       = \<lparr>columns = columns df, rows = map (\<lambda>r. r[i := g r]) (rows df)\<rparr>"
  by (simp add: set_col_def map2_same)

lemma to_datetime1_day: "c = NaN \<or> is_day c \<Longrightarrow> to_datetime1 K c = Inr (day_opt c)"
  by (cases c) (auto simp: to_datetime1_def day_opt_def is_day_def)

lemma to_datetime_days:
  "\<forall>c \<in> set cs. c = NaN \<or> is_day c \<Longrightarrow> to_datetime K cs = Inr (map day_opt cs)"
  unfolding to_datetime_def collect_Inr_iff
  by (induction cs) (simp_all add: to_datetime1_day)

subsection \<open>Month names\<close>

lemma row4: "length r = 4 \<Longrightarrow> \<exists>a b c d. r = [a, b, c, d]"
  by (cases r; simp; cases "tl r"; simp; cases "tl (tl r)"; simp; cases "tl (tl (tl r))"; simp)

lemma months_upt: "[1..<13] = [1, 2, 3, 4, 5, 6, 7, 8, 9, 10, 11, 12::nat]"
  by code_simp

lemma month_name_to_num_chain:
  "month_name_to_num s =
     (if s = ''December'' then 12 else if s = ''November'' then 11 else if s = ''October'' then 10
      else if s = ''September'' then 9 else if s = ''August'' then 8 else if s = ''July'' then 7
      else if s = ''June'' then 6 else if s = ''May'' then 5 else if s = ''April'' then 4
      else if s = ''March'' then 3 else if s = ''February'' then 2 else if s = ''January'' then 1
      else 0)"
  unfolding month_name_to_num_def months_upt by (simp add: calendar_month_name_def)

lemma month_name_to_num_name:
  assumes "k \<in> {1..12}" "calendar_month_name ! k = s"
  shows "month_name_to_num s = k"
proof -
  from assms(1) have "k = 1 \<or> k = 2 \<or> k = 3 \<or> k = 4 \<or> k = 5 \<or> k = 6 \<or> k = 7 \<or> k = 8
      \<or> k = 9 \<or> k = 10 \<or> k = 11 \<or> k = 12"
    by (simp, arith)
  then show ?thesis
    using assms(2) [symmetric]
    by (elim disjE) (simp_all add: month_name_to_num_chain calendar_month_name_def)
qed

lemma month_name_to_num_pos:
  assumes "month_name_to_num s \<noteq> 0"
  shows "month_name_to_num s \<in> {1..12} \<and> calendar_month_name ! month_name_to_num s = s"
  using assms unfolding month_name_to_num_chain
  by (simp add: calendar_month_name_def split: if_splits)

lemma month_restriction:
  "(\<forall>k \<in> {1..12}. calendar_month_name ! k = s \<longrightarrow> P k)
     \<longleftrightarrow> (month_name_to_num s \<noteq> 0 \<longrightarrow> P (month_name_to_num s))"
  using month_name_to_num_name month_name_to_num_pos by (metis atLeastAtMost_iff not_one_le_zero)

subsection \<open>Filtering a table of the four columns\<close>

lemma mask_filter_map: "map fst (filter snd (zip (map e xs) (map p xs))) = map e (filter p xs)"
  by (induction xs) auto

lemma mask_rows_helpers:
  "mask_rows (map q (map f R)) (with_helpers R) = with_helpers (filter (\<lambda>r. q (f r)) R)"
proof -
  have "map q (map f R) = map (\<lambda>r. q (f r)) R" by simp
  then show ?thesis
    by (simp only: mask_rows_def with_helpers_def dataframe.simps mask_filter_map)
qed

lemma get_col_helpers:
  assumes "\<forall>r \<in> set R. length r = 4"
  shows "get_col (with_helpers R) ''year'' = Inr (map year_cell R)"
    and "get_col (with_helpers R) ''month'' = Inr (map month_cell R)"
    and "get_col (with_helpers R) ''category'' = Inr (map (\<lambda>r. cell_at r 1) R)"
  using assms
  by (simp_all add: get_col_def with_helpers_def DATA_COLUMNS_def cell_at_def nth_append
      cong: map_cong)

lemma drop_cols_helpers:
  assumes "\<forall>r \<in> set R. length r = 4"
  shows "drop_cols [''year'', ''month''] (with_helpers R) = \<lparr>columns = DATA_COLUMNS, rows = R\<rparr>"
proof -
  have "map fst (filter snd (zip (r @ [year_cell r, month_cell r])
          [True, True, True, True, False, False])) = r" if "r \<in> set R" for r
  proof -
    from that assms obtain a b c d where "r = [a, b, c, d]"
      using row4 by blast
    then show ?thesis by simp
  qed
  then have "map (\<lambda>r. map fst (filter snd (zip (r @ [year_cell r, month_cell r])
          [True, True, True, True, False, False]))) R = R"
    by (simp add: map_idI)
  then show ?thesis
    by (simp add: drop_cols_def with_helpers_def DATA_COLUMNS_def o_def)
qed

lemma add_helpers:
  assumes cols: "columns df = DATA_COLUMNS"
    and len: "\<forall>r \<in> set (rows df). length r = 4"
  defines "ts \<equiv> map day_opt (map (\<lambda>r. cell_at r 0) (rows df))"
  defines "df2 \<equiv> set_col ''year'' (map dt_year ts) df"
  shows "get_col df ''date'' = Inr (map (\<lambda>r. cell_at r 0) (rows df))"
    and "get_col df2 ''date'' = Inr (map (\<lambda>r. cell_at r 0) (rows df))"
    and "set_col ''month'' (map dt_month ts) df2 = with_helpers (rows df)"
proof -
  show "get_col df ''date'' = Inr (map (\<lambda>r. cell_at r 0) (rows df))"
    by (simp add: get_col_def cols DATA_COLUMNS_def)
  have "map dt_year ts = map year_cell (rows df)"
    by (simp add: ts_def year_cell_def)
  then have df2: "df2 = \<lparr>columns = DATA_COLUMNS @ [''year''],
                         rows = map (\<lambda>r. r @ [year_cell r]) (rows df)\<rparr>"
    unfolding df2_def using set_col_new [of df "''year''" year_cell]
    by (simp add: cols DATA_COLUMNS_def)
  show "get_col df2 ''date'' = Inr (map (\<lambda>r. cell_at r 0) (rows df))"
    using len by (simp add: df2 get_col_def DATA_COLUMNS_def cell_at_def nth_append cong: map_cong)
  have m: "map dt_month ts = map (\<lambda>r. month_cell (butlast r)) (rows df2)"
    by (simp add: ts_def month_cell_def df2 o_def)
  have "set_col ''month'' (map (\<lambda>r. month_cell (butlast r)) (rows df2)) df2
      = \<lparr>columns = columns df2 @ [''month''],
          rows = map (\<lambda>r. r @ [month_cell (butlast r)]) (rows df2)\<rparr>"
    by (rule set_col_new) (simp add: df2 DATA_COLUMNS_def)
  then show "set_col ''month'' (map dt_month ts) df2 = with_helpers (rows df)"
    by (simp add: m) (simp add: df2 with_helpers_def o_def)
qed

lemma selected_iff:
  assumes "cell_at r 0 = NaN \<or> is_day (cell_at r 0)"
  shows "selected year month_opt categories r \<longleftrightarrow>
           year_cell r = Num (of_int year)
           \<and> (month_name_to_num month_opt \<noteq> 0
                \<longrightarrow> month_cell r = Num (of_nat (month_name_to_num month_opt)))
           \<and> (categories \<noteq> [] \<longrightarrow> isin categories (cell_at r 1))"
proof (cases "cell_at r 0")
  case (Day d)
  then show ?thesis
    using month_restriction [of month_opt "\<lambda>k. d_month d = k"]
    by (simp add: selected_def year_cell_def month_cell_def day_opt_def dt_year_def
        dt_month_def isin_def)
next
  case NaN
  then show ?thesis
    by (simp add: selected_def year_cell_def day_opt_def dt_year_def)
qed (use assms in \<open>simp_all add: is_day_def\<close>)

lemma filter_df_typed:
  assumes cols: "columns df = DATA_COLUMNS"
    and len: "\<forall>r \<in> set (rows df). length r = 4"
    and dates: "\<forall>r \<in> set (rows df). cell_at r 0 = NaN \<or> is_day (cell_at r 0)"
  shows "filter_df K df year month_opt categories
           = Inr \<lparr>columns = DATA_COLUMNS,
                  rows = filter (selected year month_opt categories) (rows df)\<rparr>"
proof (cases "rows df = []")
  case True
  then have "df_empty df" and "df = \<lparr>columns = DATA_COLUMNS, rows = []\<rparr>"
    using cols by (simp_all add: df_empty_def)
  then show ?thesis
    using True by (simp add: filter_df_def)
next
  case False
  let ?L = "map (\<lambda>r. cell_at r 0) (rows df)"
  let ?m = "month_name_to_num month_opt"
  let ?P1 = "\<lambda>r. year_cell r = Num (of_int year)"
  let ?P2 = "\<lambda>r. month_cell r = Num (of_nat ?m)"
  let ?P3 = "\<lambda>r. isin categories (cell_at r 1)"
  let ?R1 = "filter ?P1 (rows df)"
  let ?R2 = "if ?m \<noteq> 0 then filter ?P2 ?R1 else ?R1"
  let ?R3 = "if categories \<noteq> [] then filter ?P3 ?R2 else ?R2"
  have ne: "\<not> df_empty df"
    using False cols by (simp add: df_empty_def DATA_COLUMNS_def)
  have td: "to_datetime K ?L = Inr (map day_opt ?L)"
    using dates by (intro to_datetime_days) simp
  note h = add_helpers [OF cols len]
  have len1: "\<forall>r \<in> set ?R1. length r = 4" and len2: "\<forall>r \<in> set ?R2. length r = 4"
    using len by simp_all
  have month_step:
    "(if ?m \<noteq> 0
      then bindE (get_col (with_helpers ?R1) ''month'')
             (\<lambda>mc. Inr (mask_rows (map (\<lambda>c. c = Num (of_nat ?m)) mc) (with_helpers ?R1)))
      else Inr (with_helpers ?R1)) = Inr (with_helpers ?R2)"
    using get_col_helpers(2) [OF len1]
      mask_rows_helpers [of "\<lambda>c. c = Num (of_nat ?m)" month_cell ?R1]
    by (simp del: set_filter)
  have cat_step:
    "(if categories \<noteq> []
      then bindE (get_col (with_helpers ?R2) ''category'')
             (\<lambda>cc. Inr (mask_rows (map (isin categories) cc) (with_helpers ?R2)))
      else Inr (with_helpers ?R2)) = Inr (with_helpers ?R3)"
    using get_col_helpers(3) [OF len2] mask_rows_helpers [of "isin categories" "\<lambda>r. cell_at r 1" ?R2]
    by (simp del: set_filter)
  have len3: "\<forall>r \<in> set ?R3. length r = 4"
    using len by simp
  have "filter_df K df year month_opt categories = Inr \<lparr>columns = DATA_COLUMNS, rows = ?R3\<rparr>"
    unfolding filter_df_def
    by (simp only: ne if_False h td bindE_simps Let_def get_col_helpers(1) [OF len]
        mask_rows_helpers month_step cat_step drop_cols_helpers [OF len3])
  moreover have "?R3 = filter (\<lambda>r. ?P1 r \<and> (?m \<noteq> 0 \<longrightarrow> ?P2 r) \<and> (categories \<noteq> [] \<longrightarrow> ?P3 r)) (rows df)"
    by (auto intro!: filter_cong)
  moreover have "\<dots> = filter (selected year month_opt categories) (rows df)"
    using dates by (intro filter_cong) (simp_all add: selected_iff)
  ultimately show ?thesis by simp
qed

subsection \<open>Loading the four-column file\<close>

lemma read_csv_rows:
  "\<not> list_ex (\<lambda>l. length h < length l) ls \<Longrightarrow>
     read_csv K (h # ls) = Inr \<lparr>columns = h, rows = raw_rows K (length h) ls\<rparr>"
  by (simp add: read_csv_def raw_rows_def)

lemma raw_rows_length:
  assumes "\<not> list_ex (\<lambda>l. n < length l) ls"
  shows "\<forall>r \<in> set (raw_rows K n ls). length r = n"
  using assms by (auto simp: raw_rows_def pad_def list_ex_iff)

lemma raw_rows_Nil [simp]: "raw_rows K n ls = [] \<longleftrightarrow> ls = []"
  by (simp add: raw_rows_def)

lemma coerce_col_columns:
  "coerce_col n conv df = Inr df' \<Longrightarrow> columns df' = columns df"
  by (auto simp: coerce_col_def get_col_def set_col_def bindE_def split: option.splits sum.splits)

lemma coerce_col_cellwise:
  assumes "col_index (columns df) n = Some i"
    and "conv (map (\<lambda>r. cell_at r i) (rows df)) = Inr (map (\<lambda>r. g (cell_at r i)) (rows df))"
  shows "coerce_col n conv df
           = Inr \<lparr>columns = columns df, rows = map (\<lambda>r. r[i := g (cell_at r i)]) (rows df)\<rparr>"
  using assms set_col_old [of df n i "\<lambda>r. g (cell_at r i)"]
  by (simp add: coerce_col_def get_col_def)

lemma coerce_col_error:
  assumes "col_index (columns df) n = Some i"
    and "conv (map (\<lambda>r. cell_at r i) (rows df)) = Inl e"
  shows "coerce_col n conv df = Inl e"
  using assms by (simp add: coerce_col_def get_col_def)

lemma map_Inr_cellwise:
  "map f cs = map Inr ts \<Longrightarrow> map g ts = map (\<lambda>c. case f c of Inr t \<Rightarrow> g t | Inl e \<Rightarrow> d) cs"
  by (induction cs arbitrary: ts) auto

lemma to_datetime_load_date:
  assumes "to_datetime K cs = Inr ts"
  shows "map dt_date ts = map (load_date K) cs"
proof -
  from assms have "map (to_datetime1 K) cs = map Inr ts"
    by (simp add: to_datetime_def collect_InrD)
  from map_Inr_cellwise [OF this, of dt_date NaN] show ?thesis
    by (simp add: load_date_def cong: sum.case_cong)
qed

lemma load_data_columns:
  assumes "load_data K (Some (h # ls)) = (fs', Inr df)"
  shows "columns df = h"
proof -
  obtain raw where raw: "read_csv K (h # ls) = Inr raw" "columns raw = h"
    using assms
    by (cases "list_ex (\<lambda>l. length h < length l) ls")
       (auto simp: load_data_def init_data_def read_csv_def Let_def)
  show ?thesis
  proof (cases "df_empty raw")
    case True
    with assms raw show ?thesis
      by (simp add: load_data_def init_data_def)
  next
    case False
    with assms raw obtain d1 d2 d3 where
      "coerce_col ''date'' (\<lambda>cs. bindE (to_datetime K cs) (\<lambda>ts. Inr (map dt_date ts))) raw = Inr d1"
      "coerce_col ''category'' (\<lambda>cs. Inr (map (astype_str K) cs)) d1 = Inr d2"
      "coerce_col ''amount'' (\<lambda>cs. Inr (map (fillna 0 \<circ> to_numeric_coerce K) cs)) d2 = Inr d3"
      "coerce_col ''notes'' (\<lambda>cs. Inr (map (astype_str K) cs)) d3 = Inr df"
      by (auto simp: load_data_def init_data_def bindE_def split: sum.splits)
    with raw(2) show ?thesis
      by (simp add: coerce_col_columns)
  qed
qed

lemma coerce_col_map:
  assumes "col_index (columns df) n = Some i"
  shows "coerce_col n (\<lambda>cs. Inr (map g cs)) df
           = Inr \<lparr>columns = columns df, rows = map (\<lambda>r. r[i := g (cell_at r i)]) (rows df)\<rparr>"
  by (rule coerce_col_cellwise [OF assms]) simp

lemma load_data_four:
  assumes short: "\<not> list_ex (\<lambda>l. 4 < length l) ls" and ne: "ls \<noteq> []"
  shows "load_data K (Some (DATA_COLUMNS # ls))
           = (Some (DATA_COLUMNS # ls),
              case to_datetime K (map (\<lambda>r. cell_at r 0) (raw_rows K 4 ls)) of
                Inl e \<Rightarrow> Inl e
              | Inr ts \<Rightarrow> Inr \<lparr>columns = DATA_COLUMNS, rows = map (coerce_row K) (raw_rows K 4 ls)\<rparr>)"
proof -
  let ?raw = "raw_rows K 4 ls"
  let ?df = "\<lparr>columns = DATA_COLUMNS, rows = ?raw\<rparr>"
  let ?conv = "\<lambda>cs. bindE (to_datetime K cs) (\<lambda>ts. Inr (map dt_date ts))"
  have l4: "length DATA_COLUMNS = 4"
    by (simp add: DATA_COLUMNS_def)
  have rd: "read_csv K (DATA_COLUMNS # ls) = Inr ?df"
    using read_csv_rows [of DATA_COLUMNS ls K] short unfolding l4 by simp
  have nonempty: "\<not> df_empty ?df"
    using ne by (simp add: df_empty_def DATA_COLUMNS_def)
  have len: "\<forall>r \<in> set ?raw. length r = 4"
    using raw_rows_length [OF short] .
  have idx: "col_index DATA_COLUMNS ''date'' = Some 0" "col_index DATA_COLUMNS ''category'' = Some 1"
    "col_index DATA_COLUMNS ''amount'' = Some 2" "col_index DATA_COLUMNS ''notes'' = Some 3"
    by (simp_all add: DATA_COLUMNS_def)
  show ?thesis
  proof (cases "to_datetime K (map (\<lambda>r. cell_at r 0) ?raw)")
    case (Inl e)
    then have "coerce_col ''date'' ?conv ?df = Inl e"
      by (intro coerce_col_error [where i = 0]) (simp_all add: idx)
    then show ?thesis
      by (simp add: load_data_def init_data_def rd nonempty Inl)
  next
    case (Inr ts)
    let ?u0 = "\<lambda>r. r[0 := load_date K (cell_at r 0)]"
    let ?u1 = "\<lambda>r. r[1 := astype_str K (cell_at r 1)]"
    let ?u2 = "\<lambda>r. r[2 := (fillna 0 \<circ> to_numeric_coerce K) (cell_at r 2)]"
    let ?u3 = "\<lambda>r. r[3 := astype_str K (cell_at r 3)]"
    let ?d1 = "\<lparr>columns = DATA_COLUMNS, rows = map ?u0 ?raw\<rparr>"
    let ?d2 = "\<lparr>columns = DATA_COLUMNS, rows = map ?u1 (map ?u0 ?raw)\<rparr>"
    let ?d3 = "\<lparr>columns = DATA_COLUMNS, rows = map ?u2 (map ?u1 (map ?u0 ?raw))\<rparr>"
    let ?d4 = "\<lparr>columns = DATA_COLUMNS, rows = map ?u3 (map ?u2 (map ?u1 (map ?u0 ?raw)))\<rparr>"
    have "?conv (map (\<lambda>r. cell_at r 0) ?raw) = Inr (map (\<lambda>r. load_date K (cell_at r 0)) ?raw)"
      using to_datetime_load_date [OF Inr] by (simp add: Inr o_def)
    then have c1: "coerce_col ''date'' ?conv ?df = Inr ?d1"
      using coerce_col_cellwise [of ?df "''date''" 0 ?conv "load_date K"] by (simp add: idx)
    have c2: "coerce_col ''category'' (\<lambda>cs. Inr (map (astype_str K) cs)) ?d1 = Inr ?d2"
      using coerce_col_map [of ?d1 "''category''" 1 "astype_str K"] by (simp add: idx)
    have c3: "coerce_col ''amount'' (\<lambda>cs. Inr (map (fillna 0 \<circ> to_numeric_coerce K) cs)) ?d2
                = Inr ?d3"
      using coerce_col_map [of ?d2 "''amount''" 2 "fillna 0 \<circ> to_numeric_coerce K"]
      by (simp add: idx)
    have c4: "coerce_col ''notes'' (\<lambda>cs. Inr (map (astype_str K) cs)) ?d3 = Inr ?d4"
      using coerce_col_map [of ?d3 "''notes''" 3 "astype_str K"] by (simp add: idx)
    have "?u3 (?u2 (?u1 (?u0 r))) = coerce_row K r" if "r \<in> set ?raw" for r
    proof -
      from that len obtain a b c d where "r = [a, b, c, d]"
        using row4 by blast
      then show ?thesis by (simp add: cell_at_def coerce_row_def)
    qed
    then have "map ?u3 (map ?u2 (map ?u1 (map ?u0 ?raw))) = map (coerce_row K) ?raw"
      by simp
    then have "?d4 = \<lparr>columns = DATA_COLUMNS, rows = map (coerce_row K) ?raw\<rparr>"
      by simp
    then show ?thesis
      using c1 c2 c3 c4 by (simp add: load_data_def init_data_def rd nonempty Inr)
  qed
qed

lemma load_date_cases: "load_date K c = NaN \<or> is_day (load_date K c)"
  by (auto simp: load_date_def dt_date_def is_day_def split: sum.splits option.splits)

lemma typed_coerce_row: "typed_row (coerce_row K r)"
  using load_date_cases [of K "cell_at r 0"]
  by (auto simp: coerce_row_def astype_str_def is_str_def is_num_def fillna_def
      to_numeric_coerce_def split: cell.splits option.splits)

lemma DATA_COLUMNS_length: "length DATA_COLUMNS = 4"
  by (simp add: DATA_COLUMNS_def)

lemma read_csv_long:
  "list_ex (\<lambda>l. length h < length l) ls \<Longrightarrow> read_csv K (h # ls) = Inl ParserError"
  by (simp add: read_csv_def)

lemma load_data_header:
  assumes "load_data K (Some (DATA_COLUMNS # ls)) = (fs', Inr df)"
  shows "\<not> list_ex (\<lambda>l. 4 < length l) ls \<and> fs' = Some (DATA_COLUMNS # ls)
         \<and> df = \<lparr>columns = DATA_COLUMNS, rows = map (coerce_row K) (raw_rows K 4 ls)\<rparr>"
proof -
  have short: "\<not> list_ex (\<lambda>l. 4 < length l) ls"
  proof
    assume "list_ex (\<lambda>l. 4 < length l) ls"
    then have "read_csv K (DATA_COLUMNS # ls) = Inl ParserError"
      using read_csv_long [of DATA_COLUMNS ls K] by (simp add: DATA_COLUMNS_length)
    with assms show False
      by (simp add: load_data_def init_data_def)
  qed
  show ?thesis
  proof (cases "ls = []")
    case True
    then show ?thesis
      using assms
      by (simp add: load_data_def init_data_def read_csv_def raw_rows_def df_empty_def)
  next
    case False
    from assms show ?thesis
      unfolding load_data_four [OF short False] using short
      by (auto split: sum.splits)
  qed
qed

lemma load_data_typed:
  assumes "load_data K fs = (fs', Inr df)" and "columns df = DATA_COLUMNS"
  shows "typed_table df"
proof (cases fs)
  case None
  with assms(1) show ?thesis
    by (auto simp: load_data_missing typed_table_def)
next
  case (Some f)
  show ?thesis
  proof (cases f)
    case Nil
    with assms(1) Some show ?thesis
      by (simp add: load_data_def init_data_def read_csv_def)
  next
    case (Cons h ls)
    with assms Some have "h = DATA_COLUMNS"
      using load_data_columns by blast
    with assms(1) Some Cons show ?thesis
      using load_data_header [of K ls fs' df]
      by (simp add: typed_table_def list_all_iff typed_coerce_row)
  qed
qed

lemma typed_rowD:
  assumes "typed_row r"
  shows "length r = 4" and "cell_at r 0 = NaN \<or> is_day (cell_at r 0)"
    and "is_str (cell_at r 1)" and "is_num (cell_at r 2)" and "is_str (cell_at r 3)"
  using assms by (induction r rule: typed_row.induct) (simp_all add: cell_at_def)

text \<open>
  C1: for a table loaded from the four-column file, \<^verbatim>\<open>filter_df\<close> returns exactly
  the rows whose date is in the selected year, in the selected month when the month
  option names a month, and of a selected category when categories are selected; the
  columns of the result are those of the input.
\<close>

theorem filter_df_selects:
  assumes "load_data K fs = (fs', Inr df)" and "columns df = DATA_COLUMNS"
  shows "filter_df K df year month_opt categories
           = Inr \<lparr>columns = columns df,
                  rows = filter (selected year month_opt categories) (rows df)\<rparr>"
proof -
  from assms have "typed_table df"
    by (rule load_data_typed)
  then have "\<forall>r \<in> set (rows df). length r = 4"
    and "\<forall>r \<in> set (rows df). cell_at r 0 = NaN \<or> is_day (cell_at r 0)"
    by (auto simp: typed_table_def list_all_iff dest: typed_rowD)
  with assms(2) show ?thesis
    by (simp add: filter_df_typed)
qed

lemma load_wfile: "load_data demo (Some wfile) = (Some wfile, Inr wtable)"
  by code_simp

lemma pipeline_wfile:
  "pipeline demo (Some wfile) 2024 ''January'' []
     = (Some wfile,
        Inr (wtable,
             \<lparr>columns = DATA_COLUMNS, rows =
                [[Day \<lparr>d_year = 2024, d_month = 1, d_day = 15\<rparr>, Str ''Food'', Num 12.5, Str ''lunch''],
                 [Day \<lparr>d_year = 2024, d_month = 1, d_day = 20\<rparr>, Str ''Bus'', Num 3, Str ''nan'']]\<rparr>,
             (15.5, 7.75, 12.5, 2)))"
  by code_simp

theorem pipeline_rerun_witness:
  "pipeline demo (fst (pipeline demo (Some wfile) 2024 ''January'' [])) 2024 ''January'' []
     = (Some wfile,
        Inr (wtable,
             \<lparr>columns = DATA_COLUMNS, rows =
                [[Day \<lparr>d_year = 2024, d_month = 1, d_day = 15\<rparr>, Str ''Food'', Num 12.5, Str ''lunch''],
                 [Day \<lparr>d_year = 2024, d_month = 1, d_day = 20\<rparr>, Str ''Bus'', Num 3, Str ''nan'']]\<rparr>,
             (15.5, 7.75, 12.5, 2)))"
  unfolding pipeline_rerun [of demo "Some wfile" 2024 "''January''" "[]"]
  by (rule pipeline_wfile)

theorem filter_df_selects_witness:
  "load_data demo (Some wfile) = (Some wfile, Inr wtable)
   \<and> columns wtable = DATA_COLUMNS
   \<and> filter_df demo wtable 2024 ''January'' [''Food'']
       = Inr \<lparr>columns = DATA_COLUMNS, rows =
           [[Day \<lparr>d_year = 2024, d_month = 1, d_day = 15\<rparr>, Str ''Food'', Num 12.5, Str ''lunch'']]\<rparr>"
proof -
  have l: "load_data demo (Some wfile) = (Some wfile, Inr wtable)"
    by (rule load_wfile)
  have c: "columns wtable = DATA_COLUMNS"
    by (simp add: wtable_def)
  have "filter (selected 2024 ''January'' [''Food'']) (rows wtable)
          = [[Day \<lparr>d_year = 2024, d_month = 1, d_day = 15\<rparr>, Str ''Food'', Num 12.5, Str ''lunch'']]"
    by code_simp
  with filter_df_selects [OF l c, of 2024 "''January''" "[''Food'']"] l c show ?thesis
    by simp
qed

lemma raw_rows_cell:
  assumes "\<not> list_ex (\<lambda>l. n < length l) ls" and "j < n"
  shows "map (\<lambda>r. cell_at r j) (raw_rows K n ls)
           = map (\<lambda>l. read_cell K (numeric_col K n ls j) (pad n l ! j)) ls"
proof -
  have "length (pad n l) = n" if "l \<in> set ls" for l
    using that assms(1) by (auto simp: pad_def list_ex_iff)
  then show ?thesis
    using assms(2) by (simp add: raw_rows_def numeric_col_def cell_at_def Let_def)
qed












subsection \<open>The add-expense form\<close>

lemma dropWhile_all: "(\<forall>x \<in> set (dropWhile P xs). P x) \<longleftrightarrow> dropWhile P xs = []"
proof
  assume a: "\<forall>x \<in> set (dropWhile P xs). P x"
  show "dropWhile P xs = []"
  proof (rule ccontr)
    assume n: "dropWhile P xs \<noteq> []"
    then have "hd (dropWhile P xs) \<in> set (dropWhile P xs)"
      by (rule hd_in_set)
    with a have "P (hd (dropWhile P xs))"
      by blast
    with hd_dropWhile [OF n] show False
      by simp
  qed
next
  assume "dropWhile P xs = []"
  then show "\<forall>x \<in> set (dropWhile P xs). P x"
    by (metis empty_iff list.set(1))
qed

lemma strip_Nil_iff: "strip s = [] \<longleftrightarrow> list_all isspace s"
proof -
  have "strip s = [] \<longleftrightarrow> (\<forall>x \<in> set (dropWhile isspace s). isspace x)"
    by (simp add: strip_def dropWhile_eq_Nil_conv)
  also have "\<dots> \<longleftrightarrow> dropWhile isspace s = []"
    by (rule dropWhile_all)
  also have "\<dots> \<longleftrightarrow> list_all isspace s"
    by (simp add: dropWhile_eq_Nil_conv list_all_iff)
  finally show ?thesis .
qed

lemma concat_row_four:
  "columns df = DATA_COLUMNS \<Longrightarrow>
     concat_row df [(''date'', a), (''category'', b), (''amount'', c), (''notes'', d)]
       = \<lparr>columns = DATA_COLUMNS, rows = rows df @ [[a, b, c, d]]\<rparr>"
  by (simp add: concat_row_def DATA_COLUMNS_def)

lemma add_expense_result:
  assumes "load_data K fs = (fs1, Inr df)" and "columns df = DATA_COLUMNS"
  shows "add_expense K fs d cat amt note
           = (Some (DATA_COLUMNS # map (map (field_of K)) (rows df)
                      @ [[date_str K d, (if strip cat \<noteq> [] then cat else ''Uncategorized''),
                          num_str K amt, note]]),
              Inr ())"
  using assms
  by (simp add: add_expense_def concat_row_four save_data_def to_csv_def field_of_def)

text \<open>
  C8, as the code has it: submitting the form writes back the table \<^verbatim>\<open>load_data\<close>
  returned, each stored row as \<^verbatim>\<open>load_data\<close> read it, followed by exactly one new
  line: the entered date, amount and note, and the entered category, or Uncategorized
  when the entered category is empty or consists of white space.
\<close>

theorem add_expense_appends:
  assumes "load_data K fs = (fs1, Inr df)" and "columns df = DATA_COLUMNS"
  shows "add_expense K fs d cat amt note
           = (Some (DATA_COLUMNS # map (map (field_of K)) (rows df)
                      @ [[date_str K d, (if list_all isspace cat then ''Uncategorized'' else cat),
                          num_str K amt, note]]),
              Inr ())"
  using add_expense_result [OF assms, of d cat amt "note"] by (simp add: strip_Nil_iff)

text \<open>
  C6: the file has four columns (date, category, amount, notes) and every write keeps
  it so. If the file is missing or has the four-column format, then the file
  \<^verbatim>\<open>init_data\<close> leaves and the file a submission of the form leaves have the
  four-column header and four fields on every line.
\<close>

theorem store_four_columns:
  assumes "case fs of None \<Rightarrow> True | Some f \<Rightarrow> four_columns f"
  shows "(\<exists>f. init_data K fs = Some f \<and> four_columns f)
         \<and> (\<exists>f. fst (add_expense K fs d cat amt note) = Some f \<and> four_columns f)"
proof -
  obtain ls where f1: "init_data K fs = Some (DATA_COLUMNS # ls)"
    and ls: "list_all (\<lambda>l. length l = 4) ls"
  proof (cases fs)
    case None
    then have "init_data K fs = Some (DATA_COLUMNS # [])"
      by (simp add: init_data_def to_csv_def)
    then show ?thesis
      using that [of "[]"] by simp
  next
    case (Some f)
    with assms obtain ls where "f = DATA_COLUMNS # ls" "list_all (\<lambda>l. length l = 4) ls"
      by (cases f) auto
    with Some show ?thesis
      using that [of ls] by (simp add: init_data_def)
  qed
  have load: "load_data K fs = (Some (DATA_COLUMNS # ls), snd (load_data K fs))"
    using load_data_store [of K fs] f1 by (simp add: prod_eq_iff)
  have "\<exists>f. fst (add_expense K fs d cat amt note) = Some f \<and> four_columns f"
  proof (cases "snd (load_data K fs)")
    case (Inl e)
    with load have "fst (add_expense K fs d cat amt note) = Some (DATA_COLUMNS # ls)"
      by (simp add: add_expense_def)
    with ls show ?thesis by simp
  next
    case (Inr df)
    with load have "load_data K (Some (DATA_COLUMNS # ls)) = (Some (DATA_COLUMNS # ls), Inr df)"
      using load_data_rerun [of K fs] f1 by simp
    then have cols: "columns df = DATA_COLUMNS" and typed: "typed_table df"
      using load_data_columns load_data_typed by blast+
    from typed have "\<forall>r \<in> set (rows df). length r = 4"
      by (auto simp: typed_table_def list_all_iff dest: typed_rowD(1))
    then have "four_columns (DATA_COLUMNS # map (map (field_of K)) (rows df)
                 @ [[date_str K d, (if strip cat \<noteq> [] then cat else ''Uncategorized''),
                     num_str K amt, note]])"
      by (simp add: list_all_iff)
    moreover from load Inr have "load_data K fs = (Some (DATA_COLUMNS # ls), Inr df)"
      by simp
    ultimately show ?thesis
      using add_expense_result [OF _ cols, of K fs _ d cat amt "note"] by simp
  qed
  with f1 ls show ?thesis by simp
qed

theorem add_expense_appends_witness:
  "load_data demo (Some wfile) = (Some wfile, Inr wtable)
   \<and> columns wtable = DATA_COLUMNS
   \<and> add_expense demo (Some wfile) \<lparr>d_year = 2024, d_month = 3, d_day = 5\<rparr> ''  '' 7 ''taxi''
       = (Some [DATA_COLUMNS,
                [''2024-01-15'', ''Food'', ''12.5'', ''lunch''],
                [''2024-01-20'', ''Bus'', ''3.0'', ''nan''],
                [''2024-02-01'', ''Food'', ''0.0'', ''dinner''],
                [''2023-01-15'', ''Food'', ''8.0'', ''old''],
                ['''', ''Food'', ''4.0'', ''undated''],
                [''2024-03-05'', ''Uncategorized'', ''7.0'', ''taxi'']],
          Inr ())"
proof -
  have l: "load_data demo (Some wfile) = (Some wfile, Inr wtable)"
    by (rule load_wfile)
  have c: "columns wtable = DATA_COLUMNS"
    by (simp add: wtable_def)
  have "DATA_COLUMNS # map (map (field_of demo)) (rows wtable)
          @ [[date_str demo \<lparr>d_year = 2024, d_month = 3, d_day = 5\<rparr>,
              (if list_all isspace ''  '' then ''Uncategorized'' else ''  ''),
              num_str demo 7, ''taxi'']]
        = [DATA_COLUMNS,
           [''2024-01-15'', ''Food'', ''12.5'', ''lunch''],
           [''2024-01-20'', ''Bus'', ''3.0'', ''nan''],
           [''2024-02-01'', ''Food'', ''0.0'', ''dinner''],
           [''2023-01-15'', ''Food'', ''8.0'', ''old''],
           ['''', ''Food'', ''4.0'', ''undated''],
           [''2024-03-05'', ''Uncategorized'', ''7.0'', ''taxi'']]"
    by code_simp
  with add_expense_appends [OF l c, of "\<lparr>d_year = 2024, d_month = 3, d_day = 5\<rparr>" "''  ''" 7 "''taxi''"]
    l c show ?thesis
    by simp
qed

theorem stored_row_rewritten:
  "fst (add_expense demo (Some [DATA_COLUMNS, [''2024-02-01'', ''Food'', ''abc'', ''dinner'']])
         \<lparr>d_year = 2024, d_month = 3, d_day = 5\<rparr> ''Bus'' 7 ''ride'')
     = Some [DATA_COLUMNS,
             [''2024-02-01'', ''Food'', ''0.0'', ''dinner''],
             [''2024-03-05'', ''Bus'', ''7.0'', ''ride'']]
   \<and> [''2024-02-01'', ''Food'', ''abc'', ''dinner'']
       \<notin> set (the (fst (add_expense demo
                  (Some [DATA_COLUMNS, [''2024-02-01'', ''Food'', ''abc'', ''dinner'']])
                  \<lparr>d_year = 2024, d_month = 3, d_day = 5\<rparr> ''Bus'' 7 ''ride'')))"
  by code_simp

theorem store_four_columns_witness:
  "(case Some wfile of None \<Rightarrow> True | Some f \<Rightarrow> four_columns f)
   \<and> (\<exists>f. init_data demo (Some wfile) = Some f \<and> four_columns f)
   \<and> (\<exists>f. fst (add_expense demo (Some wfile) \<lparr>d_year = 2024, d_month = 3, d_day = 5\<rparr>
                  ''Food'' 7 ''taxi'') = Some f \<and> four_columns f)"
proof -
  have h: "case Some wfile of None \<Rightarrow> True | Some f \<Rightarrow> four_columns f"
    by code_simp
  from store_four_columns [OF h, of demo "\<lparr>d_year = 2024, d_month = 3, d_day = 5\<rparr>"
      "''Food''" 7 "''taxi''"] h
  show ?thesis
    by (intro conjI) (assumption, erule conjunct1, erule conjunct2)
qed

subsection \<open>Saving and loading again\<close>

lemma is_na_empty: "is_na ''''"
  by (simp add: is_na_def na_values_def)

lemma cell_at_coerce_row_notes: "cell_at (coerce_row K r) 3 = astype_str K (cell_at r 3)"
  by (simp add: coerce_row_def cell_at_def)

text \<open>
  C5, where the code departs from it: a row whose note is the empty string (the form's
  note is optional) does not come back from a save followed by a load. The empty field
  is read as a missing value, and \<^verbatim>\<open>astype(str)\<close> turns it into the text nan. So for
  every table of the coerced types with such a row, the load after the save does not
  return the table.
\<close>

theorem empty_note_not_restored:
  assumes typed: "typed_table df" and r: "r \<in> set (rows df)" and empty: "cell_at r 3 = Str ''''"
  shows "snd (load_data K (save_data K fs df)) \<noteq> Inr df"
proof
  assume same: "snd (load_data K (save_data K fs df)) = Inr df"
  let ?ls = "map (map (field_of K)) (rows df)"
  have cols: "columns df = DATA_COLUMNS"
    using typed by (simp add: typed_table_def)
  have len: "\<forall>r \<in> set (rows df). length r = 4"
    using typed by (auto simp: typed_table_def list_all_iff dest: typed_rowD(1))
  have "load_data K (Some (DATA_COLUMNS # ?ls))
          = (fst (load_data K (Some (DATA_COLUMNS # ?ls))), Inr df)"
    using same by (simp add: save_data_def to_csv_def cols prod_eq_iff)
  from load_data_header [OF this]
  have short: "\<not> list_ex (\<lambda>l. 4 < length l) ?ls"
    and df: "df = \<lparr>columns = DATA_COLUMNS, rows = map (coerce_row K) (raw_rows K 4 ?ls)\<rparr>"
    by simp_all
  have "map (\<lambda>r. cell_at r 3) (rows df)
          = map (\<lambda>r. astype_str K (cell_at r 3)) (raw_rows K 4 ?ls)"
    by (subst df) (simp add: cell_at_coerce_row_notes o_def)
  also have "\<dots> = map (astype_str K) (map (\<lambda>r. cell_at r 3) (raw_rows K 4 ?ls))"
    by (simp add: o_def)
  also have "\<dots> = map (\<lambda>r. astype_str K (read_cell K (numeric_col K 4 ?ls 3)
                        (pad 4 (map (field_of K) r) ! 3))) (rows df)"
    by (simp add: raw_rows_cell [OF short] o_def)
  finally have "cell_at r 3
      = astype_str K (read_cell K (numeric_col K 4 ?ls 3) (pad 4 (map (field_of K) r) ! 3))"
    using r by (simp add: map_eq_conv)
  moreover have "pad 4 (map (field_of K) r) ! 3 = ''''"
    using len r empty by (auto simp: pad_def cell_at_def field_of_def nth_append split: if_splits)
  ultimately show False
    using empty by (simp add: read_cell_def is_na_empty astype_str_def)
qed

theorem empty_note_not_restored_witness:
  "typed_table rt_table
   \<and> [Day \<lparr>d_year = 2024, d_month = 3, d_day = 5\<rparr>, Str ''Food'', Num 12.5, Str '''']
        \<in> set (rows rt_table)
   \<and> cell_at [Day \<lparr>d_year = 2024, d_month = 3, d_day = 5\<rparr>, Str ''Food'', Num 12.5, Str ''''] 3
        = Str ''''
   \<and> load_data demo (save_data demo None rt_table)
        = (Some [DATA_COLUMNS, [''2024-03-05'', ''Food'', ''12.5'', '''']],
           Inr \<lparr>columns = DATA_COLUMNS, rows =
             [[Day \<lparr>d_year = 2024, d_month = 3, d_day = 5\<rparr>, Str ''Food'', Num 12.5, Str ''nan'']]\<rparr>)
   \<and> snd (load_data demo (save_data demo None rt_table)) \<noteq> Inr rt_table"
proof -
  have t: "typed_table rt_table"
    by code_simp
  have r: "[Day \<lparr>d_year = 2024, d_month = 3, d_day = 5\<rparr>, Str ''Food'', Num 12.5, Str '''']
             \<in> set (rows rt_table)"
    by (simp add: rt_table_def)
  have n: "cell_at [Day \<lparr>d_year = 2024, d_month = 3, d_day = 5\<rparr>, Str ''Food'', Num 12.5, Str ''''] 3
             = Str ''''"
    by (simp add: cell_at_def)
  have e: "load_data demo (save_data demo None rt_table)
        = (Some [DATA_COLUMNS, [''2024-03-05'', ''Food'', ''12.5'', '''']],
           Inr \<lparr>columns = DATA_COLUMNS, rows =
             [[Day \<lparr>d_year = 2024, d_month = 3, d_day = 5\<rparr>, Str ''Food'', Num 12.5, Str ''nan'']]\<rparr>)"
    by code_simp
  from empty_note_not_restored [OF t r n, of demo None] t r n e show ?thesis
    by (intro conjI)
qed

subsection \<open>Grouping by date\<close>













subsection \<open>The aggregates of a table\<close>

















end
